theory Spec2Isabelle
  imports Main
begin

section \<open>Images and the libraries the script calls\<close>

text \<open>
  \<^verbatim>\<open>ImageType\<close> is either a \<^verbatim>\<open>numpy.ndarray\<close> or a \<^verbatim>\<open>PIL.Image.Image\<close>.
  An array is kept as its shape and its flattened content; \<^verbatim>\<open>ndim\<close> is the
  number of axes.
\<close>

record ndarray =
  shape :: "nat list"
  pixels :: "nat list"

record pil_image =
  pil_mode :: string
  pil_content :: "nat list"

datatype image = Pillow pil_image | Array ndarray

definition ndim :: "ndarray \<Rightarrow> nat" where
  "ndim a = length (shape a)"

text \<open>
  The two pure conversions come from outside the repository
  (\<^verbatim>\<open>supervision.utils.conversion.pillow_to_cv2\<close> and
  \<^verbatim>\<open>cv2.cvtColor(_, cv2.COLOR_BGR2RGB)\<close>); they are parameters of the model.
\<close>

record libs =
  pillow_to_cv2 :: "pil_image \<Rightarrow> ndarray"
  cvtColor_BGR2RGB :: "ndarray \<Rightarrow> ndarray"

datatype error =
    ValueError string
  | AttributeError string
  | TypeError string
  | AssertionError

section \<open>The plotting calls as events\<close>

text \<open>
  Every call into \<^verbatim>\<open>matplotlib\<close> is recorded, in order. \<^verbatim>\<open>ax.imshow\<close> is called
  either with the keyword \<^verbatim>\<open>cmap=cmap\<close> (whose value may be \<^verbatim>\<open>None\<close>) or with no
  colormap keyword at all.
\<close>

datatype cmap_arg = Cmap_kw "string option" | No_cmap_kw

datatype event =
    Subplots int int "int \<times> int"
  | Imshow nat ndarray cmap_arg
  | Set_title nat string
  | Axis_off nat
  | Savefig string
  | Show
  | Close

text \<open>
  What \<^verbatim>\<open>plt.subplots(nrows, ncols, figsize)\<close> hands back as \<^verbatim>\<open>axes\<close>. The call is
  made with the library's default \<^verbatim>\<open>squeeze=True\<close>: a grid of one cell gives the bare
  \<^verbatim>\<open>Axes\<close> object, every other grid an array of \<^verbatim>\<open>Axes\<close> with that many cells.
  The library rejects a row or column count that is not positive; the figure is
  created before the grid is.
\<close>

datatype axes = Single_Axes | Axes_Array nat

definition subplots :: "int \<Rightarrow> int \<Rightarrow> error + axes" where
  "subplots nrows ncols =
     (if nrows \<le> 0 then Inl (ValueError ''Number of rows must be a positive integer'')
      else if ncols \<le> 0 then Inl (ValueError ''Number of columns must be a positive integer'')
      else if nrows = 1 \<and> ncols = 1 then Inr Single_Axes
      else Inr (Axes_Array (nat (nrows * ncols))))"

text \<open>\<^verbatim>\<open>axes.flat\<close>: an attribute of arrays, which an \<^verbatim>\<open>Axes\<close> object does not have.\<close>

definition axes_flat :: "axes \<Rightarrow> error + nat list" where
  "axes_flat ax =
     (case ax of
        Single_Axes \<Rightarrow> Inl (AttributeError ''Axes object has no attribute flat'')
      | Axes_Array n \<Rightarrow> Inr [0..<n])"

section \<open>plot_images_grid\<close>

text \<open>
  Lines 50 to 52: the loop over \<^verbatim>\<open>enumerate(images)\<close> that overwrites, in the
  caller's list, each entry that is a PIL image. The list keeps its length, so the
  read at \<open>idx\<close> is always in range.
\<close>

definition convert_entry :: "libs \<Rightarrow> nat \<Rightarrow> image list \<Rightarrow> image list" where
  "convert_entry L idx imgs =
     (case imgs ! idx of
        Pillow p \<Rightarrow> imgs[idx := Array (pillow_to_cv2 L p)]
      | Array a \<Rightarrow> imgs)"

definition convert_images :: "libs \<Rightarrow> image list \<Rightarrow> image list" where
  "convert_images L images = fold (convert_entry L) [0..<length images] images"

definition capacity_message :: string where
  "capacity_message =
     ''The number of images exceeds the grid size. Please increase the grid size'' @
     '' or reduce the number of images.''"

text \<open>
  Lines 63 to 72, the body of the loop over the cells. Reading \<^verbatim>\<open>.ndim\<close> of
  something that is not an array is an \<^verbatim>\<open>AttributeError\<close>.
\<close>

definition render_cell ::
  "libs \<Rightarrow> image list \<Rightarrow> string list option \<Rightarrow> string option \<Rightarrow> nat \<Rightarrow> error + event list" where
  "render_cell L images titles cmap idx =
     (if idx < length images then
        (case images ! idx of
           Pillow p \<Rightarrow> Inl (AttributeError ''Image object has no attribute ndim'')
         | Array a \<Rightarrow>
             Inr ((if ndim a = 2 then [Imshow idx a (Cmap_kw cmap)]
                   else [Imshow idx (cvtColor_BGR2RGB L a) No_cmap_kw]) @
                  (case titles of
                     None \<Rightarrow> []
                   | Some ts \<Rightarrow> if idx < length ts then [Set_title idx (ts ! idx)] else []) @
                  [Axis_off idx]))
      else Inr [Axis_off idx])"

fun render_cells ::
  "libs \<Rightarrow> image list \<Rightarrow> string list option \<Rightarrow> string option \<Rightarrow> nat list \<Rightarrow> event list
     \<Rightarrow> (error + unit) \<times> event list" where
  "render_cells L images titles cmap [] tr = (Inr (), tr)"
| "render_cells L images titles cmap (idx # rest) tr =
     (case render_cell L images titles cmap idx of
        Inl e \<Rightarrow> (Inl e, tr)
      | Inr evs \<Rightarrow> render_cells L images titles cmap rest (tr @ evs))"

text \<open>\<^verbatim>\<open>if save_path:\<close> is Python truthiness: neither \<^verbatim>\<open>None\<close> nor the empty string.\<close>

definition finish :: "string option \<Rightarrow> event list" where
  "finish save_path =
     (case save_path of
        None \<Rightarrow> [Show, Close]
      | Some p \<Rightarrow> if p \<noteq> [] then [Savefig p, Close] else [Show, Close])"

text \<open>
  The whole function. It returns nothing; the model gives the outcome (an error or
  \<open>()\<close>), the plotting calls made, and the caller's list as the call leaves it.
\<close>

definition plot_images_grid ::
  "libs \<Rightarrow> image list \<Rightarrow> int \<times> int \<Rightarrow> string list option \<Rightarrow> int \<times> int \<Rightarrow> string option
     \<Rightarrow> string option \<Rightarrow> (error + unit) \<times> event list \<times> image list" where
  "plot_images_grid L images grid_size titles figsize cmap save_path =
     (let nrows = fst grid_size; ncols = snd grid_size;
          images' = convert_images L images
      in if int (length images') > nrows * ncols then
           (Inl (ValueError capacity_message), [], images')
         else
           (case subplots nrows ncols of
              Inl e \<Rightarrow> (Inl e, [Subplots nrows ncols figsize], images')
            | Inr ax \<Rightarrow>
                (case axes_flat ax of
                   Inl e \<Rightarrow> (Inl e, [Subplots nrows ncols figsize], images')
                 | Inr cells \<Rightarrow>
                     (case render_cells L images' titles cmap cells
                             [Subplots nrows ncols figsize] of
                        (Inl e, tr) \<Rightarrow> (Inl e, tr, images')
                      | (Inr u, tr) \<Rightarrow> (Inr (), tr @ finish save_path, images')))))"

section \<open>The checkpoint resolver\<close>

text \<open>
  Lines 88 to 92 of \<^verbatim>\<open>bounding_box_prompt\<close>. The file system is a map from the paths
  that are directories to their listings (\<^verbatim>\<open>os.listdir\<close>, in directory order); a
  path outside its domain is not a directory (\<^verbatim>\<open>os.path.isdir\<close> is false there,
  also for a path that does not exist).
\<close>

type_synonym filesystem = "string \<rightharpoonup> string list"

text \<open>\<^verbatim>\<open>s.startswith(p)\<close>, \<^verbatim>\<open>s.endswith(p)\<close> and \<^verbatim>\<open>sub in s\<close> on Python strings.\<close>

fun startswith :: "string \<Rightarrow> string \<Rightarrow> bool" where
  "startswith [] s = True"
| "startswith (p # ps) [] = False"
| "startswith (p # ps) (c # cs) = (p = c \<and> startswith ps cs)"

definition endswith :: "string \<Rightarrow> string \<Rightarrow> bool" where
  "endswith p s = startswith (rev p) (rev s)"

fun str_contains :: "string \<Rightarrow> string \<Rightarrow> bool" where
  "str_contains sub [] = (sub = [])"
| "str_contains sub (c # cs) = (startswith sub (c # cs) \<or> str_contains sub cs)"

text \<open>\<^verbatim>\<open>os.path.join(a, b)\<close> of \<^verbatim>\<open>posixpath\<close>, for two components.\<close>

definition path_join :: "string \<Rightarrow> string \<Rightarrow> string" where
  "path_join a b =
     (if startswith ''/'' b then b
      else if a = [] \<or> endswith ''/'' a then a @ b
      else a @ ''/'' @ b)"

definition resolve_ckpts :: "filesystem \<Rightarrow> string \<Rightarrow> string list" where
  "resolve_ckpts fs ckpt =
     (case fs ckpt of
        Some entries \<Rightarrow>
          [path_join ckpt x. x \<leftarrow> entries, str_contains ''.pt'' x \<or> str_contains ''.pth'' x]
      | None \<Rightarrow> [ckpt])"

text \<open>The same resolver with the one-marker filter, to be compared with the source's.\<close>

definition resolve_ckpts_pt_only :: "filesystem \<Rightarrow> string \<Rightarrow> string list" where
  "resolve_ckpts_pt_only fs ckpt =
     (case fs ckpt of
        Some entries \<Rightarrow> [path_join ckpt x. x \<leftarrow> entries, str_contains ''.pt'' x]
      | None \<Rightarrow> [ckpt])"

section \<open>bounding_box_prompt\<close>

record args =
  wandb :: "bool option"
  exp_name :: "string option"
  lora_ckpt :: "string option"
  testing_ckpt :: "string option"
  eval_datasets :: "string list"
  data_location :: string
  num_classes :: "nat option"
  ignore_index :: "int option"

text \<open>
  The collaborators. A dataset is what \<^verbatim>\<open>getattr(datasets, name)\<close> finds; for a
  checkpoint it yields, batch by batch, the pairs of arrays that lines 132 to 139
  compute for each image (the box-annotated source and the mask-annotated copy).
\<close>

record dataset =
  ds_num_classes :: nat
  ds_ignore_index :: int
  ds_batches :: "string \<Rightarrow> (ndarray \<times> ndarray) list list"

record env =
  cuda_available :: bool
  cuda_device_count :: nat
  files :: filesystem
  dataset_registry :: "string \<rightharpoonup> dataset"
  plot_libs :: libs

datatype bb_event =
    Torch_device string
  | Device_count
  | Construct_dataset string string
  | Make_loader string
  | Get_model "string option"
  | Load_state_dict string string
  | Model_to_device string
  | Model_eval
  | Generate nat
  | Plot "event list"

type_synonym bb_state = "bb_event list \<times> args"

text \<open>Lines 131 to 146: one plot per image of the batch.\<close>

fun plot_batch :: "libs \<Rightarrow> (ndarray \<times> ndarray) list \<Rightarrow> bb_event list \<Rightarrow> (error + unit) \<times> bb_event list" where
  "plot_batch L [] tr = (Inr (), tr)"
| "plot_batch L ((image_boxes, annotated_image_semantic) # rest) tr =
     (case plot_images_grid L [Array image_boxes, Array annotated_image_semantic] (1, 2)
             (Some [''source image'', ''instance segmentation'']) (12, 12) (Some ''gray'') None of
        (Inl e, evs, imgs) \<Rightarrow> (Inl e, tr @ [Plot evs])
      | (Inr u, evs, imgs) \<Rightarrow> plot_batch L rest (tr @ [Plot evs]))"

text \<open>Lines 117 to 146: the loop over the loader, \<open>k\<close> counting the batches.\<close>

fun run_batches :: "libs \<Rightarrow> (ndarray \<times> ndarray) list list \<Rightarrow> nat \<Rightarrow> bb_event list \<Rightarrow> (error + unit) \<times> bb_event list" where
  "run_batches L [] k tr = (Inr (), tr)"
| "run_batches L (batch # rest) k tr =
     (case plot_batch L batch (tr @ [Generate k]) of
        (Inl e, tr') \<Rightarrow> (Inl e, tr')
      | (Inr u, tr') \<Rightarrow> run_batches L rest (Suc k) tr')"

text \<open>\<^verbatim>\<open>if args.testing_ckpt:\<close> is truthiness again.\<close>

definition truthy :: "string option \<Rightarrow> bool" where
  "truthy s = (case s of None \<Rightarrow> False | Some p \<Rightarrow> p \<noteq> [])"

text \<open>Lines 102 to 146: the loop over the checkpoints, for one dataset.\<close>

fun run_ckpts :: "env \<Rightarrow> string \<Rightarrow> dataset \<Rightarrow> string \<Rightarrow> string list \<Rightarrow> bb_state \<Rightarrow> (error + unit) \<times> bb_state" where
  "run_ckpts E device ds name [] st = (Inr (), st)"
| "run_ckpts E device ds name (fold_ckpt # rest) (tr, a) =
     (let a1 = a\<lparr>lora_ckpt := Some fold_ckpt\<rparr>;
          tr1 = tr @ [Get_model (lora_ckpt a1)] @
                (if truthy (testing_ckpt a1) then [Load_state_dict fold_ckpt device] else []) @
                [Model_to_device device, Model_eval]
      in case run_batches (plot_libs E) (ds_batches ds fold_ckpt) 0 tr1 of
           (Inl e, tr2) \<Rightarrow> (Inl e, (tr2, a1))
         | (Inr u, tr2) \<Rightarrow> run_ckpts E device ds name rest (tr2, a1))"

text \<open>Lines 94 to 146: the loop over \<^verbatim>\<open>args.eval_datasets\<close>.\<close>

fun run_datasets :: "env \<Rightarrow> string \<Rightarrow> string list \<Rightarrow> string list \<Rightarrow> bb_state \<Rightarrow> (error + unit) \<times> bb_state" where
  "run_datasets E device ckpts [] st = (Inr (), st)"
| "run_datasets E device ckpts (dataset_name # rest) (tr, a) =
     (case dataset_registry E dataset_name of
        None \<Rightarrow> (Inl (AttributeError dataset_name), (tr, a))
      | Some ds \<Rightarrow>
          (let tr1 = tr @ [Construct_dataset dataset_name (data_location a), Make_loader dataset_name];
               a1 = a\<lparr>num_classes := Some (ds_num_classes ds), ignore_index := Some (ds_ignore_index ds)\<rparr>
           in case run_ckpts E device ds dataset_name ckpts (tr1, a1) of
                (Inl e, st') \<Rightarrow> (Inl e, st')
              | (Inr u, st') \<Rightarrow> run_datasets E device ckpts rest st'))"

text \<open>
  The function itself: the outcome, the calls made to the collaborators, and
  \<^verbatim>\<open>args\<close> as the call leaves it.
\<close>

definition bounding_box_prompt :: "env \<Rightarrow> args \<Rightarrow> (error + unit) \<times> bb_state" where
  "bounding_box_prompt E a0 =
     (let a = a0\<lparr>wandb := Some False\<rparr>
      in if exp_name a = None then (Inl AssertionError, ([], a))
         else
           (let device = (if cuda_available E then ''cuda:0'' else ''cpu'');
                tr = [Torch_device device, Device_count]
            in case (case lora_ckpt a of Some c \<Rightarrow> Some c | None \<Rightarrow> testing_ckpt a) of
                 None \<Rightarrow> (Inl (TypeError ''stat: path should be string, not NoneType''), (tr, a))
               | Some ckpt \<Rightarrow>
                   run_datasets E device (resolve_ckpts (files E) ckpt) (eval_datasets a) (tr, a)))"

section \<open>Sample values\<close>

definition demo_libs :: libs where
  "demo_libs = \<lparr>pillow_to_cv2 = (\<lambda>p. \<lparr>shape = [1, 1, 3], pixels = rev (pil_content p)\<rparr>),
                 cvtColor_BGR2RGB = (\<lambda>a. a\<lparr>pixels := rev (pixels a)\<rparr>)\<rparr>"

definition checkerboard :: "nat \<Rightarrow> ndarray" where
  "checkerboard n = \<lparr>shape = [n, n], pixels = map (\<lambda>k. ((k div n + k mod n) mod 2) * 255) [0..<n * n]\<rparr>"

definition bgr_pixel :: ndarray where
  "bgr_pixel = \<lparr>shape = [1, 1, 3], pixels = [255, 0, 0]\<rparr>"

definition rgb_photo :: pil_image where
  "rgb_photo = \<lparr>pil_mode = ''RGB'', pil_content = [10, 20, 30]\<rparr>"

definition demo_fs :: filesystem where
  "demo_fs = [''ckpts'' \<mapsto> [''fold0.pt'', ''fold1.pth'', ''readme.txt'']]"

definition demo_dataset :: dataset where
  "demo_dataset = \<lparr>ds_num_classes = 2, ds_ignore_index = 255,
                    ds_batches = (\<lambda>ckpt. [[(bgr_pixel, bgr_pixel)]])\<rparr>"

definition demo_env :: env where
  "demo_env = \<lparr>cuda_available = False, cuda_device_count = 0, files = demo_fs,
                dataset_registry = [''GalileoDataset'' \<mapsto> demo_dataset], plot_libs = demo_libs\<rparr>"

definition demo_args :: args where
  "demo_args = \<lparr>wandb = None, exp_name = None, lora_ckpt = Some ''model.pt'', testing_ckpt = None,
                 eval_datasets = [''GalileoDataset''], data_location = ''data'',
                 num_classes = None, ignore_index = None\<rparr>"

section \<open>Definitions used to state the properties\<close>

definition convert_image :: "libs \<Rightarrow> image \<Rightarrow> image" where
  "convert_image L img = (case img of Pillow p \<Rightarrow> Array (pillow_to_cv2 L p) | Array a \<Rightarrow> Array a)"

definition cell_events ::
  "libs \<Rightarrow> image list \<Rightarrow> string list option \<Rightarrow> string option \<Rightarrow> nat \<Rightarrow> event list" where
  "cell_events L images titles cmap idx =
     (case render_cell L images titles cmap idx of Inl e \<Rightarrow> [] | Inr evs \<Rightarrow> evs)"

definition as_array :: "libs \<Rightarrow> image \<Rightarrow> ndarray" where
  "as_array L img = (case img of Pillow p \<Rightarrow> pillow_to_cv2 L p | Array a \<Rightarrow> a)"

definition all_arrays :: "image list \<Rightarrow> bool" where
  "all_arrays imgs = (\<forall>img \<in> set imgs. \<exists>a. img = Array a)"

definition grid_ok :: "nat \<Rightarrow> int \<times> int \<Rightarrow> bool" where
  "grid_ok n grid_size =
     (int n \<le> fst grid_size * snd grid_size \<and> 0 < fst grid_size \<and> 0 < snd grid_size
      \<and> \<not> (fst grid_size = 1 \<and> snd grid_size = 1))"

definition grid_trace ::
  "libs \<Rightarrow> image list \<Rightarrow> int \<times> int \<Rightarrow> string list option \<Rightarrow> int \<times> int \<Rightarrow> string option
     \<Rightarrow> event list" where
  "grid_trace L images grid_size titles figsize cmap =
     Subplots (fst grid_size) (snd grid_size) figsize #
     concat (map (cell_events L (convert_images L images) titles cmap)
               [0..<nat (fst grid_size * snd grid_size)])"

definition demo_images :: "image list" where
  "demo_images = [Array (checkerboard 64), Pillow rgb_photo]"

section \<open>The conversion loop\<close>

lemma convert_entry_length: "length (convert_entry L idx imgs) = length imgs"
  by (simp add: convert_entry_def split: image.splits)

lemma convert_entry_eq:
  "idx < length imgs \<Longrightarrow> convert_entry L idx imgs = imgs[idx := convert_image L (imgs ! idx)]"
proof (cases "imgs ! idx")
  case (Pillow p)
  then show ?thesis by (simp add: convert_entry_def convert_image_def)
next
  case (Array a)
  then have "imgs[idx := Array a] = imgs"
    by (metis list_update_id)
  with Array show ?thesis by (simp add: convert_entry_def convert_image_def)
qed

lemma fold_convert_entry:
  "n \<le> length imgs \<Longrightarrow>
   fold (convert_entry L) [0..<n] imgs = map (convert_image L) (take n imgs) @ drop n imgs"
proof (induction n)
  case 0
  then show ?case by simp
next
  case (Suc n)
  then have n: "n < length imgs" by simp
  have "fold (convert_entry L) [0..<Suc n] imgs
        = convert_entry L n (map (convert_image L) (take n imgs) @ drop n imgs)"
    using Suc by simp
  also have "\<dots> = (map (convert_image L) (take n imgs) @ drop n imgs)
                     [n := convert_image L (imgs ! n)]"
    using n by (simp add: convert_entry_eq nth_append)
  also have "\<dots> = map (convert_image L) (take n imgs) @ (drop n imgs)[0 := convert_image L (imgs ! n)]"
    using n by (simp add: list_update_append)
  also have "\<dots> = map (convert_image L) (take n imgs) @ convert_image L (imgs ! n) # drop (Suc n) imgs"
    using n by (simp add: Cons_nth_drop_Suc [symmetric])
  also have "\<dots> = map (convert_image L) (take (Suc n) imgs) @ drop (Suc n) imgs"
    using n by (simp add: take_Suc_conv_app_nth)
  finally show ?case .
qed

lemma convert_images_map: "convert_images L images = map (convert_image L) images"
  by (simp add: convert_images_def fold_convert_entry)

lemma convert_images_length: "length (convert_images L images) = length images"
  by (simp add: convert_images_map)

section \<open>The rendering loop on a successful call\<close>

lemma convert_image_as_array: "convert_image L img = Array (as_array L img)"
  by (simp add: convert_image_def as_array_def split: image.splits)

lemma all_arrays_convert: "all_arrays (convert_images L images)"
  by (auto simp: all_arrays_def convert_images_map convert_image_as_array)

lemma convert_images_nth:
  "idx < length images \<Longrightarrow> convert_images L images ! idx = Array (as_array L (images ! idx))"
  by (simp add: convert_images_map convert_image_as_array)

lemma render_cell_arrays:
  "all_arrays imgs \<Longrightarrow>
   render_cell L imgs titles cmap idx = Inr (cell_events L imgs titles cmap idx)"
proof (cases "idx < length imgs")
  case True
  assume "all_arrays imgs"
  with True obtain a where "imgs ! idx = Array a"
    unfolding all_arrays_def by (meson nth_mem)
  with True show ?thesis by (simp add: cell_events_def render_cell_def)
next
  case False
  then show ?thesis by (simp add: cell_events_def render_cell_def)
qed

lemma render_cells_arrays:
  "all_arrays imgs \<Longrightarrow>
   render_cells L imgs titles cmap cells tr
     = (Inr (), tr @ concat (map (cell_events L imgs titles cmap) cells))"
  by (induction cells arbitrary: tr) (simp_all add: render_cell_arrays)

lemma plot_images_grid_ok_iff:
  "fst (plot_images_grid L images grid_size titles figsize cmap save_path) = Inr ()
     \<longleftrightarrow> grid_ok (length images) grid_size"
  by (simp add: plot_images_grid_def Let_def convert_images_length subplots_def axes_flat_def
        render_cells_arrays [OF all_arrays_convert] grid_ok_def)

lemma plot_images_grid_ok_trace:
  "grid_ok (length images) grid_size \<Longrightarrow>
   plot_images_grid L images grid_size titles figsize cmap save_path
     = (Inr (), grid_trace L images grid_size titles figsize cmap @ finish save_path,
        convert_images L images)"
  by (simp add: plot_images_grid_def Let_def convert_images_length subplots_def axes_flat_def
        render_cells_arrays [OF all_arrays_convert] grid_ok_def grid_trace_def)

lemma cell_events_convert:
  "cell_events L (convert_images L images) titles cmap idx =
     (if idx < length images then
        (if ndim (as_array L (images ! idx)) = 2
         then [Imshow idx (as_array L (images ! idx)) (Cmap_kw cmap)]
         else [Imshow idx (cvtColor_BGR2RGB L (as_array L (images ! idx))) No_cmap_kw]) @
        (case titles of
           None \<Rightarrow> []
         | Some ts \<Rightarrow> if idx < length ts then [Set_title idx (ts ! idx)] else []) @
        [Axis_off idx]
      else [Axis_off idx])"
  by (simp add: cell_events_def render_cell_def convert_images_length convert_images_nth)

lemma in_grid_trace:
  "e \<in> set (grid_trace L images grid_size titles figsize cmap) \<longleftrightarrow>
     e = Subplots (fst grid_size) (snd grid_size) figsize
     \<or> (\<exists>j < nat (fst grid_size * snd grid_size).
           e \<in> set (cell_events L (convert_images L images) titles cmap j))"
  by (auto simp: grid_trace_def)

lemma Imshow_in_cell:
  "Imshow idx arr c \<in> set (cell_events L (convert_images L images) titles cmap j) \<longleftrightarrow>
     j = idx \<and> idx < length images \<and>
     (if ndim (as_array L (images ! idx)) = 2
      then arr = as_array L (images ! idx) \<and> c = Cmap_kw cmap
      else arr = cvtColor_BGR2RGB L (as_array L (images ! idx)) \<and> c = No_cmap_kw)"
  by (auto simp: cell_events_convert split: option.splits if_splits)

lemma Set_title_in_cell:
  "Set_title idx t \<in> set (cell_events L (convert_images L images) titles cmap j) \<longleftrightarrow>
     j = idx \<and> idx < length images \<and>
     (\<exists>ts. titles = Some ts \<and> idx < length ts \<and> t = ts ! idx)"
  by (auto simp: cell_events_convert split: option.splits if_splits)

lemma Axis_off_in_cell:
  "Axis_off idx \<in> set (cell_events L (convert_images L images) titles cmap j) \<longleftrightarrow> j = idx"
  by (auto simp: cell_events_convert split: option.splits if_splits)

lemma no_final_in_cell:
  "Show \<notin> set (cell_events L (convert_images L images) titles cmap j)"
  "Savefig p \<notin> set (cell_events L (convert_images L images) titles cmap j)"
  "Close \<notin> set (cell_events L (convert_images L images) titles cmap j)"
  by (auto simp: cell_events_convert split: option.splits if_splits)

lemma no_final_in_grid_trace:
  "Show \<notin> set (grid_trace L images grid_size titles figsize cmap)"
  "Savefig p \<notin> set (grid_trace L images grid_size titles figsize cmap)"
  "Close \<notin> set (grid_trace L images grid_size titles figsize cmap)"
  by (simp_all add: in_grid_trace no_final_in_cell)

lemma in_finish:
  "Imshow idx arr c \<notin> set (finish save_path)"
  "Set_title idx t \<notin> set (finish save_path)"
  by (simp_all add: finish_def split: option.splits)

lemma grid_ok_cells: "grid_ok n grid_size \<Longrightarrow> n \<le> nat (fst grid_size * snd grid_size)"
  unfolding grid_ok_def by linarith

section \<open>The capacity check\<close>

text \<open>
  C1. Whenever \<^verbatim>\<open>len(images) > rows * columns\<close>, \<^verbatim>\<open>plot_images_grid\<close> fails with the
  \<^verbatim>\<open>ValueError\<close> whose message says that the number of images exceeds the grid size,
  and it does so before any plotting call: no figure is allocated, nothing is saved,
  nothing is shown.
\<close>

theorem plot_images_grid_capacity_error:
  assumes "int (length images) > fst grid_size * snd grid_size"
  shows "fst (plot_images_grid L images grid_size titles figsize cmap save_path)
           = Inl (ValueError capacity_message)
       \<and> fst (snd (plot_images_grid L images grid_size titles figsize cmap save_path)) = []"
  using assms by (simp add: plot_images_grid_def Let_def convert_images_length)

theorem plot_images_grid_capacity_error_witness:
  "int (length [Array bgr_pixel, Array bgr_pixel, Array bgr_pixel]) > fst (1, 2) * snd (1, 2)
   \<and> fst (plot_images_grid demo_libs [Array bgr_pixel, Array bgr_pixel, Array bgr_pixel] (1, 2)
            None (12, 12) (Some ''gray'') (Some ''/tmp/out.png''))
       = Inl (ValueError capacity_message)
   \<and> fst (snd (plot_images_grid demo_libs [Array bgr_pixel, Array bgr_pixel, Array bgr_pixel] (1, 2)
            None (12, 12) (Some ''gray'') (Some ''/tmp/out.png''))) = []"
  using plot_images_grid_capacity_error
    [of "(1, 2)" "[Array bgr_pixel, Array bgr_pixel, Array bgr_pixel]" demo_libs None "(12, 12)"
        "Some ''gray''" "Some ''/tmp/out.png''"]
  by simp

section \<open>The caller's list is overwritten\<close>

text \<open>
  C9. \<^verbatim>\<open>plot_images_grid\<close> mutates its \<^verbatim>\<open>images\<close> argument: the list the call leaves
  behind has each PIL entry replaced by its converted array and every other entry as it
  was, whatever the outcome; the replacement precedes the capacity check, so it has
  happened also when the call raises the capacity \<^verbatim>\<open>ValueError\<close>.
\<close>

theorem plot_images_grid_mutates_images:
  "length (snd (snd (plot_images_grid L images grid_size titles figsize cmap save_path))) = length images
   \<and> (\<forall>i < length images.
        snd (snd (plot_images_grid L images grid_size titles figsize cmap save_path)) ! i
          = (case images ! i of Pillow p \<Rightarrow> Array (pillow_to_cv2 L p) | Array a \<Rightarrow> Array a))
   \<and> (int (length images) > fst grid_size * snd grid_size \<longrightarrow>
        fst (plot_images_grid L images grid_size titles figsize cmap save_path)
          = Inl (ValueError capacity_message))"
proof -
  have final: "snd (snd (plot_images_grid L images grid_size titles figsize cmap save_path))
               = map (convert_image L) images"
    by (simp add: plot_images_grid_def Let_def convert_images_map
             split: sum.splits prod.splits)
  show ?thesis
    unfolding final
    by (simp add: convert_image_def plot_images_grid_def Let_def convert_images_length)
qed


theorem plot_images_grid_mutates_images_witness:
  "length (snd (snd (plot_images_grid demo_libs [Pillow rgb_photo, Array bgr_pixel] (1, 1) None
              (12, 12) (Some ''gray'') None))) = 2
   \<and> snd (snd (plot_images_grid demo_libs [Pillow rgb_photo, Array bgr_pixel] (1, 1) None
              (12, 12) (Some ''gray'') None)) ! 0
       = Array \<lparr>shape = [1, 1, 3], pixels = [30, 20, 10]\<rparr>
   \<and> snd (snd (plot_images_grid demo_libs [Pillow rgb_photo, Array bgr_pixel] (1, 1) None
              (12, 12) (Some ''gray'') None)) ! 1
       = Array bgr_pixel
   \<and> fst (plot_images_grid demo_libs [Pillow rgb_photo, Array bgr_pixel] (1, 1) None (12, 12)
              (Some ''gray'') None) = Inl (ValueError capacity_message)"
proof -
  note h = plot_images_grid_mutates_images
    [of demo_libs "[Pillow rgb_photo, Array bgr_pixel]" "(1, 1)" None "(12, 12)" "Some ''gray''" None]
  note len = h [THEN conjunct1]
  note e0 = h [THEN conjunct2, THEN conjunct1, rule_format, of 0]
  note e1 = h [THEN conjunct2, THEN conjunct1, rule_format, of 1]
  note err = h [THEN conjunct2, THEN conjunct2, rule_format]
  have "length [Pillow rgb_photo, Array bgr_pixel] = 2" by simp
  moreover have "pillow_to_cv2 demo_libs rgb_photo = \<lparr>shape = [1, 1, 3], pixels = [30, 20, 10]\<rparr>"
    by (simp add: demo_libs_def rgb_photo_def)
  ultimately show ?thesis using len e0 e1 err by simp
qed

section \<open>Sample calls\<close>

lemma ndim_checkerboard: "ndim (checkerboard n) = 2"
  by (simp add: ndim_def checkerboard_def)

lemma demo_call_ok:
  "fst (plot_images_grid demo_libs demo_images (1, 2) (Some [''left'']) (12, 12) (Some ''gray'')
          (Some ''/tmp/out.png'')) = Inr ()"
  by (simp add: plot_images_grid_ok_iff grid_ok_def demo_images_def)

text \<open>The plotting calls of a call with two images, one title and a target file, in order.\<close>

lemma demo_call_trace:
  "fst (snd (plot_images_grid demo_libs demo_images (1, 2) (Some [''left'']) (12, 12) (Some ''gray'')
          (Some ''/tmp/out.png'')))
   = [Subplots 1 2 (12, 12),
      Imshow 0 (checkerboard 64) (Cmap_kw (Some ''gray'')), Set_title 0 ''left'', Axis_off 0,
      Imshow 1 \<lparr>shape = [1, 1, 3], pixels = [10, 20, 30]\<rparr> No_cmap_kw, Axis_off 1,
      Savefig ''/tmp/out.png'', Close]"
proof -
  have conv: "convert_images demo_libs demo_images
              = [Array (checkerboard 64), Array \<lparr>shape = [1, 1, 3], pixels = [30, 20, 10]\<rparr>]"
    by (simp add: convert_images_map convert_image_def demo_images_def demo_libs_def rgb_photo_def)
  have cells: "[0..<2] = [0, Suc 0]"
    by (simp add: upt_rec)
  have n3: "ndim \<lparr>shape = [1, 1, 3], pixels = [30, 20, 10]\<rparr> \<noteq> 2"
    by (simp add: ndim_def)
  have c1: "cvtColor_BGR2RGB demo_libs \<lparr>shape = [1, 1, 3], pixels = [30, 20, 10]\<rparr>
            = \<lparr>shape = [1, 1, 3], pixels = [10, 20, 30]\<rparr>"
    by (simp add: demo_libs_def)
  show ?thesis
    unfolding plot_images_grid_def Let_def conv
    using n3 c1
    by (simp add: subplots_def axes_flat_def cells render_cell_def ndim_checkerboard finish_def)
qed

section \<open>What each cell renders\<close>

text \<open>
  In a call that completes, the cell of every index that holds an image gets exactly
  one \<^verbatim>\<open>imshow\<close>: a 2-dimensional image is drawn as it is with the keyword
  \<^verbatim>\<open>cmap=cmap\<close>; an image of any other dimension is first passed through the BGR to
  RGB conversion and drawn with no colormap.
\<close>

lemma plot_images_grid_imshow:
  assumes "fst (plot_images_grid L images grid_size titles figsize cmap save_path) = Inr ()"
    and "idx < length images"
  shows "Imshow idx arr c \<in> set (fst (snd (plot_images_grid L images grid_size titles figsize cmap save_path)))
         \<longleftrightarrow> (if ndim (as_array L (images ! idx)) = 2
              then arr = as_array L (images ! idx) \<and> c = Cmap_kw cmap
              else arr = cvtColor_BGR2RGB L (as_array L (images ! idx)) \<and> c = No_cmap_kw)"
proof -
  from assms(1) have ok: "grid_ok (length images) grid_size"
    by (simp add: plot_images_grid_ok_iff)
  with assms(2) have cell: "idx < nat (fst grid_size * snd grid_size)"
    using grid_ok_cells by fastforce
  show ?thesis
    using assms(2) cell
    by (auto simp: plot_images_grid_ok_trace [OF ok] in_grid_trace Imshow_in_cell in_finish)
qed

lemma plot_images_grid_imshow_sample:
  "fst (plot_images_grid demo_libs demo_images (1, 2) (Some [''left'']) (12, 12) (Some ''gray'')
          (Some ''/tmp/out.png'')) = Inr ()
   \<and> 0 < length demo_images \<and> 1 < length demo_images
   \<and> Imshow 0 (checkerboard 64) (Cmap_kw (Some ''gray''))
       \<in> set (fst (snd (plot_images_grid demo_libs demo_images (1, 2) (Some [''left'']) (12, 12)
                          (Some ''gray'') (Some ''/tmp/out.png''))))
   \<and> Imshow 0 (checkerboard 64) No_cmap_kw
       \<notin> set (fst (snd (plot_images_grid demo_libs demo_images (1, 2) (Some [''left'']) (12, 12)
                          (Some ''gray'') (Some ''/tmp/out.png''))))
   \<and> Imshow 1 \<lparr>shape = [1, 1, 3], pixels = [10, 20, 30]\<rparr> No_cmap_kw
       \<in> set (fst (snd (plot_images_grid demo_libs demo_images (1, 2) (Some [''left'']) (12, 12)
                          (Some ''gray'') (Some ''/tmp/out.png''))))"
proof -
  have l: "0 < length demo_images" "1 < length demo_images"
    by (simp_all add: demo_images_def)
  have a0: "as_array demo_libs (demo_images ! 0) = checkerboard 64"
    by (simp add: demo_images_def as_array_def)
  have a1: "as_array demo_libs (demo_images ! 1) = \<lparr>shape = [1, 1, 3], pixels = [30, 20, 10]\<rparr>"
    by (simp add: demo_images_def as_array_def demo_libs_def rgb_photo_def)
  have c1: "cvtColor_BGR2RGB demo_libs \<lparr>shape = [1, 1, 3], pixels = [30, 20, 10]\<rparr>
            = \<lparr>shape = [1, 1, 3], pixels = [10, 20, 30]\<rparr>"
    by (simp add: demo_libs_def)
  note t = plot_images_grid_imshow [OF demo_call_ok]
  have "Imshow 0 (checkerboard 64) (Cmap_kw (Some ''gray''))
       \<in> set (fst (snd (plot_images_grid demo_libs demo_images (1, 2) (Some [''left'']) (12, 12)
                          (Some ''gray'') (Some ''/tmp/out.png''))))"
    unfolding t [OF l(1)] a0 by (simp add: ndim_checkerboard)
  moreover have "Imshow 0 (checkerboard 64) No_cmap_kw
       \<notin> set (fst (snd (plot_images_grid demo_libs demo_images (1, 2) (Some [''left'']) (12, 12)
                          (Some ''gray'') (Some ''/tmp/out.png''))))"
    unfolding t [OF l(1)] a0 by (simp add: ndim_checkerboard)
  moreover have "Imshow 1 \<lparr>shape = [1, 1, 3], pixels = [10, 20, 30]\<rparr> No_cmap_kw
       \<in> set (fst (snd (plot_images_grid demo_libs demo_images (1, 2) (Some [''left'']) (12, 12)
                          (Some ''gray'') (Some ''/tmp/out.png''))))"
    unfolding t [OF l(2)] a1 c1 by (simp add: ndim_def)
  ultimately show ?thesis
    using l demo_call_ok by blast
qed

text \<open>
  On every call, completed or not, an \<^verbatim>\<open>imshow\<close> that is made is made in that manner:
  no 2-dimensional image is ever converted, no other image is ever drawn with a colormap.
\<close>

lemma plot_images_grid_trace_cases:
  "fst (snd (plot_images_grid L images grid_size titles figsize cmap save_path))
     = (if grid_ok (length images) grid_size
        then grid_trace L images grid_size titles figsize cmap @ finish save_path
        else if int (length images) > fst grid_size * snd grid_size then []
        else [Subplots (fst grid_size) (snd grid_size) figsize])"
proof (cases "grid_ok (length images) grid_size")
  case True
  then show ?thesis by (simp add: plot_images_grid_ok_trace)
next
  case False
  then show ?thesis
    by (simp add: plot_images_grid_def Let_def convert_images_length subplots_def axes_flat_def
          grid_ok_def)
qed

lemma plot_images_grid_imshow_manner:
  assumes "Imshow idx arr c
             \<in> set (fst (snd (plot_images_grid L images grid_size titles figsize cmap save_path)))"
  shows "idx < length images
         \<and> (if ndim (as_array L (images ! idx)) = 2
            then arr = as_array L (images ! idx) \<and> c = Cmap_kw cmap
            else arr = cvtColor_BGR2RGB L (as_array L (images ! idx)) \<and> c = No_cmap_kw)"
proof (cases "grid_ok (length images) grid_size")
  case True
  with assms have "Imshow idx arr c \<in> set (grid_trace L images grid_size titles figsize cmap)"
    by (simp add: plot_images_grid_trace_cases in_finish)
  then obtain j where "Imshow idx arr c \<in> set (cell_events L (convert_images L images) titles cmap j)"
    by (auto simp: in_grid_trace)
  then show ?thesis by (simp add: Imshow_in_cell)
next
  case False
  with assms show ?thesis
    by (simp add: plot_images_grid_trace_cases split: if_splits)
qed

text \<open>
  C5. Every cell index that holds an image is to be rendered, a 2-dimensional image
  through \<^verbatim>\<open>cmap\<close>. In the grid of one cell this does not happen: cell 0 holds a
  2-dimensional image and the capacity check passes, but the call raises at
  \<^verbatim>\<open>axes.flat\<close>, before the loop, and no \<^verbatim>\<open>imshow\<close> is made for the cell.
\<close>

theorem plot_images_grid_single_cell_no_imshow:
  "0 < length [Array (checkerboard 64)]
   \<and> ndim (as_array demo_libs ([Array (checkerboard 64)] ! 0)) = 2
   \<and> int (length [Array (checkerboard 64)]) \<le> 1 * 1
   \<and> fst (plot_images_grid demo_libs [Array (checkerboard 64)] (1, 1) None (12, 12) (Some ''gray'')
            (Some ''/tmp/out.png''))
       = Inl (AttributeError ''Axes object has no attribute flat'')
   \<and> Imshow 0 (checkerboard 64) (Cmap_kw (Some ''gray''))
       \<notin> set (fst (snd (plot_images_grid demo_libs [Array (checkerboard 64)] (1, 1) None (12, 12)
                          (Some ''gray'') (Some ''/tmp/out.png''))))
   \<and> (\<forall>arr c. Imshow 0 arr c
       \<notin> set (fst (snd (plot_images_grid demo_libs [Array (checkerboard 64)] (1, 1) None (12, 12)
                          (Some ''gray'') (Some ''/tmp/out.png'')))))"
proof -
  have tr: "fst (snd (plot_images_grid demo_libs [Array (checkerboard 64)] (1, 1) None (12, 12)
                        (Some ''gray'') (Some ''/tmp/out.png''))) = [Subplots 1 1 (12, 12)]"
    by (simp add: plot_images_grid_def Let_def convert_images_length subplots_def axes_flat_def)
  have err: "fst (plot_images_grid demo_libs [Array (checkerboard 64)] (1, 1) None (12, 12)
                    (Some ''gray'') (Some ''/tmp/out.png''))
             = Inl (AttributeError ''Axes object has no attribute flat'')"
    by (simp add: plot_images_grid_def Let_def convert_images_length subplots_def axes_flat_def)
  have nd: "ndim (as_array demo_libs ([Array (checkerboard 64)] ! 0)) = 2"
    by (simp add: as_array_def ndim_checkerboard)
  show ?thesis
    unfolding tr err using nd by simp
qed

section \<open>Titles\<close>

text \<open>
  C6. The titles never decide whether the call raises: the outcome is the one of the same
  call with \<^verbatim>\<open>titles=None\<close>. In a call that completes, image \<open>i\<close> gets the title
  \<^verbatim>\<open>titles[i]\<close> exactly when \<open>i < len(titles)\<close>, and no title otherwise; this covers
  every list of titles shorter than \<^verbatim>\<open>images\<close>, and \<^verbatim>\<open>None\<close>.
\<close>

theorem plot_images_grid_titles:
  "fst (plot_images_grid L images grid_size titles figsize cmap save_path)
     = fst (plot_images_grid L images grid_size None figsize cmap save_path)
   \<and> (fst (plot_images_grid L images grid_size titles figsize cmap save_path) = Inr () \<longrightarrow>
        (\<forall>idx < length images. \<forall>t.
           Set_title idx t \<in> set (fst (snd (plot_images_grid L images grid_size titles figsize cmap save_path)))
           \<longleftrightarrow> (\<exists>ts. titles = Some ts \<and> idx < length ts \<and> t = ts ! idx)))"
proof (intro conjI impI allI)
  show "fst (plot_images_grid L images grid_size titles figsize cmap save_path)
          = fst (plot_images_grid L images grid_size None figsize cmap save_path)"
  proof (cases "grid_ok (length images) grid_size")
    case True
    then show ?thesis by (simp add: plot_images_grid_ok_trace)
  next
    case False
    then have "fst (plot_images_grid L images grid_size titles figsize cmap save_path) \<noteq> Inr ()"
      and "fst (plot_images_grid L images grid_size None figsize cmap save_path) \<noteq> Inr ()"
      by (simp_all add: plot_images_grid_ok_iff)
    then show ?thesis
      by (simp add: plot_images_grid_def Let_def convert_images_length
            render_cells_arrays [OF all_arrays_convert] split: sum.splits if_splits)
  qed
next
  fix idx t
  assume okr: "fst (plot_images_grid L images grid_size titles figsize cmap save_path) = Inr ()"
    and idx: "idx < length images"
  from okr have ok: "grid_ok (length images) grid_size"
    by (simp add: plot_images_grid_ok_iff)
  with idx have cell: "idx < nat (fst grid_size * snd grid_size)"
    using grid_ok_cells by fastforce
  show "Set_title idx t \<in> set (fst (snd (plot_images_grid L images grid_size titles figsize cmap save_path)))
        \<longleftrightarrow> (\<exists>ts. titles = Some ts \<and> idx < length ts \<and> t = ts ! idx)"
    using idx cell
    by (auto simp: plot_images_grid_ok_trace [OF ok] in_grid_trace Set_title_in_cell in_finish)
qed

theorem plot_images_grid_titles_witness:
  "fst (plot_images_grid demo_libs demo_images (1, 2) (Some [''left'']) (12, 12) (Some ''gray'')
          (Some ''/tmp/out.png'')) = Inr ()
   \<and> fst (plot_images_grid demo_libs demo_images (1, 2) None (12, 12) (Some ''gray'')
          (Some ''/tmp/out.png'')) = Inr ()
   \<and> length [''left''] < length demo_images
   \<and> Set_title 0 ''left''
       \<in> set (fst (snd (plot_images_grid demo_libs demo_images (1, 2) (Some [''left'']) (12, 12)
                          (Some ''gray'') (Some ''/tmp/out.png''))))
   \<and> (\<forall>t. Set_title 1 t
       \<notin> set (fst (snd (plot_images_grid demo_libs demo_images (1, 2) (Some [''left'']) (12, 12)
                          (Some ''gray'') (Some ''/tmp/out.png'')))))"
proof -
  note h = plot_images_grid_titles
    [of demo_libs demo_images "(1, 2)" "Some [''left'']" "(12, 12)" "Some ''gray''"
        "Some ''/tmp/out.png''"]
  note same = h [THEN conjunct1]
  note ev = h [THEN conjunct2, rule_format, OF demo_call_ok]
  have l: "0 < length demo_images" "1 < length demo_images"
    by (simp_all add: demo_images_def)
  have "Set_title 0 ''left''
       \<in> set (fst (snd (plot_images_grid demo_libs demo_images (1, 2) (Some [''left'']) (12, 12)
                          (Some ''gray'') (Some ''/tmp/out.png''))))"
    using ev [OF l(1), of "''left''"] by simp
  moreover have "\<forall>t. Set_title 1 t
       \<notin> set (fst (snd (plot_images_grid demo_libs demo_images (1, 2) (Some [''left'']) (12, 12)
                          (Some ''gray'') (Some ''/tmp/out.png''))))"
    using ev [OF l(2)] by simp
  ultimately show ?thesis
    using same demo_call_ok l by simp
qed

section \<open>Axes are switched off in every cell\<close>

text \<open>
  C7. In a call that completes, the plotting calls end with the save or the show and
  then the close; before the save or show, \<^verbatim>\<open>ax.axis("off")\<close> has been called on
  every cell of the grid, with or without an image.
\<close>

theorem plot_images_grid_axis_off:
  assumes "fst (plot_images_grid L images grid_size titles figsize cmap save_path) = Inr ()"
  shows "\<exists>pre fin.
           fst (snd (plot_images_grid L images grid_size titles figsize cmap save_path))
             = pre @ [fin, Close]
           \<and> (fin = Show \<or> (\<exists>p. fin = Savefig p))
           \<and> (\<forall>idx < nat (fst grid_size * snd grid_size). Axis_off idx \<in> set pre)
           \<and> Show \<notin> set pre \<and> (\<forall>p. Savefig p \<notin> set pre)"
proof -
  from assms have ok: "grid_ok (length images) grid_size"
    by (simp add: plot_images_grid_ok_iff)
  let ?pre = "grid_trace L images grid_size titles figsize cmap"
  have "\<exists>fin. finish save_path = [fin, Close] \<and> (fin = Show \<or> (\<exists>p. fin = Savefig p))"
    by (simp add: finish_def split: option.splits)
  then obtain fin where fin: "finish save_path = [fin, Close]" "fin = Show \<or> (\<exists>p. fin = Savefig p)"
    by blast
  have "\<forall>idx < nat (fst grid_size * snd grid_size). Axis_off idx \<in> set ?pre"
    by (auto simp: in_grid_trace Axis_off_in_cell)
  with fin show ?thesis
    by (intro exI [of _ ?pre] exI [of _ fin])
       (simp add: plot_images_grid_ok_trace [OF ok] no_final_in_grid_trace)
qed

theorem plot_images_grid_axis_off_witness:
  "fst (plot_images_grid demo_libs [Array (checkerboard 64)] (1, 2) None (12, 12) (Some ''gray'')
          None) = Inr ()
   \<and> (\<exists>pre fin.
         fst (snd (plot_images_grid demo_libs [Array (checkerboard 64)] (1, 2) None (12, 12)
                     (Some ''gray'') None)) = pre @ [fin, Close]
         \<and> (fin = Show \<or> (\<exists>p. fin = Savefig p))
         \<and> Axis_off 0 \<in> set pre \<and> Axis_off 1 \<in> set pre
         \<and> Show \<notin> set pre \<and> (\<forall>p. Savefig p \<notin> set pre))"
proof -
  have ok: "fst (plot_images_grid demo_libs [Array (checkerboard 64)] (1, 2) None (12, 12)
                   (Some ''gray'') None) = Inr ()"
    by (simp add: plot_images_grid_ok_iff grid_ok_def)
  from plot_images_grid_axis_off [OF ok]
  obtain pre fin where
    "fst (snd (plot_images_grid demo_libs [Array (checkerboard 64)] (1, 2) None (12, 12)
                     (Some ''gray'') None)) = pre @ [fin, Close]"
    "fin = Show \<or> (\<exists>p. fin = Savefig p)"
    "\<forall>idx < nat (fst (1::int, 2::int) * snd (1::int, 2::int)). Axis_off idx \<in> set pre"
    "Show \<notin> set pre" "\<forall>p. Savefig p \<notin> set pre"
    by blast
  moreover from this(3) have "Axis_off 0 \<in> set pre \<and> Axis_off 1 \<in> set pre"
    by simp
  ultimately show ?thesis using ok by blast
qed

section \<open>Saving, showing and closing\<close>

text \<open>
  C4, as the code has it. In a call that completes: with a non-empty \<^verbatim>\<open>save_path\<close> the
  figure is saved to that path and not shown; with \<^verbatim>\<open>None\<close> or the empty string it is
  shown and not saved; the close is the last plotting call, and the only close. A call
  that the capacity check rejects makes no plotting call, so it has no figure to release.
\<close>

theorem plot_images_grid_save_or_show:
  "(fst (plot_images_grid L images grid_size titles figsize cmap save_path) = Inr () \<longrightarrow>
      (\<exists>pre. Show \<notin> set pre \<and> (\<forall>p. Savefig p \<notin> set pre) \<and> Close \<notin> set pre
         \<and> fst (snd (plot_images_grid L images grid_size titles figsize cmap save_path))
             = pre @ (case save_path of
                        None \<Rightarrow> [Show, Close]
                      | Some p \<Rightarrow> if p = [] then [Show, Close] else [Savefig p, Close])))
   \<and> (int (length images) > fst grid_size * snd grid_size \<longrightarrow>
        fst (snd (plot_images_grid L images grid_size titles figsize cmap save_path)) = [])"
proof (intro conjI impI)
  assume "fst (plot_images_grid L images grid_size titles figsize cmap save_path) = Inr ()"
  then have ok: "grid_ok (length images) grid_size"
    by (simp add: plot_images_grid_ok_iff)
  show "\<exists>pre. Show \<notin> set pre \<and> (\<forall>p. Savefig p \<notin> set pre) \<and> Close \<notin> set pre
         \<and> fst (snd (plot_images_grid L images grid_size titles figsize cmap save_path))
             = pre @ (case save_path of
                        None \<Rightarrow> [Show, Close]
                      | Some p \<Rightarrow> if p = [] then [Show, Close] else [Savefig p, Close])"
    by (intro exI [of _ "grid_trace L images grid_size titles figsize cmap"])
       (simp add: plot_images_grid_ok_trace [OF ok] no_final_in_grid_trace finish_def
             split: option.splits)
next
  assume "int (length images) > fst grid_size * snd grid_size"
  then show "fst (snd (plot_images_grid L images grid_size titles figsize cmap save_path)) = []"
    by (simp add: plot_images_grid_def Let_def convert_images_length)
qed

theorem plot_images_grid_save_or_show_witness:
  "fst (plot_images_grid demo_libs demo_images (1, 2) (Some [''left'']) (12, 12) (Some ''gray'')
          (Some ''/tmp/out.png'')) = Inr ()
   \<and> (\<exists>pre. Show \<notin> set pre \<and> (\<forall>p. Savefig p \<notin> set pre) \<and> Close \<notin> set pre
         \<and> fst (snd (plot_images_grid demo_libs demo_images (1, 2) (Some [''left'']) (12, 12)
                       (Some ''gray'') (Some ''/tmp/out.png'')))
             = pre @ [Savefig ''/tmp/out.png'', Close])
   \<and> int (length demo_images) > fst (1::int, 1::int) * snd (1::int, 1::int)
   \<and> fst (snd (plot_images_grid demo_libs demo_images (1, 1) None (12, 12) (Some ''gray'')
                  (Some ''/tmp/out.png''))) = []"
proof -
  note h1 = plot_images_grid_save_or_show
    [where L = demo_libs and images = demo_images and grid_size = "(1, 2)"
       and titles = "Some [''left'']" and figsize = "(12, 12)" and cmap = "Some ''gray''"
       and save_path = "Some ''/tmp/out.png''", THEN conjunct1, rule_format, OF demo_call_ok]
  have over: "int (length demo_images) > fst (1::int, 1::int) * snd (1::int, 1::int)"
    by (simp add: demo_images_def)
  note h2 = plot_images_grid_save_or_show
    [where L = demo_libs and images = demo_images and grid_size = "(1, 1)"
       and titles = None and figsize = "(12, 12)" and cmap = "Some ''gray''"
       and save_path = "Some ''/tmp/out.png''", THEN conjunct2, rule_format, OF over]
  from h1 have "\<exists>pre. Show \<notin> set pre \<and> (\<forall>p. Savefig p \<notin> set pre) \<and> Close \<notin> set pre
         \<and> fst (snd (plot_images_grid demo_libs demo_images (1, 2) (Some [''left'']) (12, 12)
                       (Some ''gray'') (Some ''/tmp/out.png'')))
             = pre @ [Savefig ''/tmp/out.png'', Close]"
    by simp
  with h2 over demo_call_ok show ?thesis by blast
qed

text \<open>
  C4, as stated, fails: \<^verbatim>\<open>plt.close()\<close> is the last statement of the function and is
  not in a \<^verbatim>\<open>finally\<close>, so a call that raises after \<^verbatim>\<open>plt.subplots\<close> leaves its
  figure open. Here the figure is allocated, the call raises, and no close follows.
\<close>

theorem plot_images_grid_no_release_counterexample:
  "fst (plot_images_grid demo_libs [Array (checkerboard 64)] (1, 1) None (12, 12) (Some ''gray'')
          None) \<noteq> Inr ()
   \<and> Subplots 1 1 (12, 12)
       \<in> set (fst (snd (plot_images_grid demo_libs [Array (checkerboard 64)] (1, 1) None (12, 12)
                          (Some ''gray'') None)))
   \<and> Close
       \<notin> set (fst (snd (plot_images_grid demo_libs [Array (checkerboard 64)] (1, 1) None (12, 12)
                          (Some ''gray'') None)))"
  by (simp add: plot_images_grid_def Let_def convert_images_length subplots_def axes_flat_def)

section \<open>The grid of one cell\<close>

text \<open>
  C2. The call of the scenario, one grayscale image in a grid of one cell with a target
  file: \<^verbatim>\<open>plt.subplots\<close> returns a single \<^verbatim>\<open>Axes\<close>, \<^verbatim>\<open>axes.flat\<close> raises
  \<^verbatim>\<open>AttributeError\<close>, and nothing is drawn or saved.
\<close>

theorem plot_images_grid_single_cell_fails:
  "plot_images_grid demo_libs [Array (checkerboard 64)] (1, 1) None (12, 12) (Some ''gray'')
     (Some ''/tmp/out.png'')
   = (Inl (AttributeError ''Axes object has no attribute flat''), [Subplots 1 1 (12, 12)],
      [Array (checkerboard 64)])"
  by (simp add: plot_images_grid_def Let_def convert_images_map convert_image_def subplots_def
        axes_flat_def)

section \<open>Substrings and paths\<close>

lemma startswith_iff: "startswith p s \<longleftrightarrow> (\<exists>v. s = p @ v)"
  by (induction p s rule: startswith.induct) auto

lemma str_contains_iff: "str_contains sub s \<longleftrightarrow> (\<exists>u v. s = u @ sub @ v)"
proof (induction s)
  case Nil
  then show ?case by auto
next
  case (Cons c cs)
  show ?case
  proof
    assume "str_contains sub (c # cs)"
    then consider "startswith sub (c # cs)" | "str_contains sub cs" by auto
    then show "\<exists>u v. c # cs = u @ sub @ v"
    proof cases
      case 1
      then obtain v where "c # cs = sub @ v" by (auto simp: startswith_iff)
      then have "c # cs = [] @ sub @ v" by simp
      then show ?thesis by blast
    next
      case 2
      with Cons obtain u v where "cs = u @ sub @ v" by blast
      then have "c # cs = (c # u) @ sub @ v" by simp
      then show ?thesis by blast
    qed
  next
    assume "\<exists>u v. c # cs = u @ sub @ v"
    then obtain u v where uv: "c # cs = u @ sub @ v" by blast
    show "str_contains sub (c # cs)"
    proof (cases u)
      case Nil
      with uv have "startswith sub (c # cs)" by (auto simp: startswith_iff)
      then show ?thesis by simp
    next
      case (Cons d u')
      with uv have "cs = u' @ sub @ v" by simp
      with Cons.IH have "str_contains sub cs" by blast
      then show ?thesis by simp
    qed
  qed
qed

lemma pth_contains_pt: "str_contains ''.pth'' x \<Longrightarrow> str_contains ''.pt'' x"
proof -
  assume "str_contains ''.pth'' x"
  then obtain u v where "x = u @ ''.pth'' @ v" by (auto simp: str_contains_iff)
  then have "x = u @ ''.pt'' @ (''h'' @ v)" by simp
  then show ?thesis unfolding str_contains_iff by blast
qed

lemma path_join_plain:
  "a \<noteq> [] \<Longrightarrow> last a \<noteq> CHR ''/'' \<Longrightarrow> CHR ''/'' \<notin> set b \<Longrightarrow> path_join a b = a @ ''/'' @ b"
proof -
  assume a: "a \<noteq> []" "last a \<noteq> CHR ''/''" and b: "CHR ''/'' \<notin> set b"
  from b have "\<not> startswith ''/'' b" by (auto simp: startswith_iff)
  moreover from a have "\<not> endswith ''/'' a"
    by (auto simp: endswith_def startswith_iff)
  ultimately show ?thesis using a by (simp add: path_join_def)
qed

lemma comprehension_filter:
  "concat (map (\<lambda>x. if P x then [f x] else []) xs) = map f (filter P xs)"
  by (induction xs) simp_all

lemma resolve_ckpts_filter:
  "resolve_ckpts fs ckpt =
     (case fs ckpt of
        Some entries \<Rightarrow>
          map (path_join ckpt)
            (filter (\<lambda>x. str_contains ''.pt'' x \<or> str_contains ''.pth'' x) entries)
      | None \<Rightarrow> [ckpt])"
  by (simp add: resolve_ckpts_def comprehension_filter split: option.splits)

section \<open>What the resolver returns\<close>

text \<open>
  C3. For a path that is not a directory the resolver returns the list holding just that
  path. For a directory it returns, in the order of the listing, the joined paths of
  exactly the entries whose name has \<^verbatim>\<open>.pt\<close> or \<^verbatim>\<open>.pth\<close> somewhere in it, and of no
  other entry.
\<close>

theorem resolve_ckpts_contract:
  "(fs ckpt = None \<longrightarrow> resolve_ckpts fs ckpt = [ckpt])
   \<and> (\<forall>entries. fs ckpt = Some entries \<longrightarrow>
         resolve_ckpts fs ckpt
           = map (path_join ckpt)
               (filter (\<lambda>x. (\<exists>u v. x = u @ ''.pt'' @ v) \<or> (\<exists>u v. x = u @ ''.pth'' @ v)) entries))"
  by (simp add: resolve_ckpts_filter str_contains_iff)

theorem resolve_ckpts_contract_witness:
  "demo_fs ''ckpts'' = Some [''fold0.pt'', ''fold1.pth'', ''readme.txt'']
   \<and> resolve_ckpts demo_fs ''ckpts'' = [''ckpts/fold0.pt'', ''ckpts/fold1.pth'']
   \<and> demo_fs ''model.pt'' = None
   \<and> resolve_ckpts demo_fs ''model.pt'' = [''model.pt'']"
proof -
  have d: "demo_fs ''ckpts'' = Some [''fold0.pt'', ''fold1.pth'', ''readme.txt'']"
    and f: "demo_fs ''model.pt'' = None"
    by (simp_all add: demo_fs_def)
  note dir = resolve_ckpts_contract [of demo_fs "''ckpts''", THEN conjunct2, rule_format, OF d]
  note single = resolve_ckpts_contract [of demo_fs "''model.pt''", THEN conjunct1, rule_format, OF f]
  have "resolve_ckpts demo_fs ''ckpts'' = [''ckpts/fold0.pt'', ''ckpts/fold1.pth'']"
    unfolding dir str_contains_iff [symmetric]
    by (simp add: path_join_def endswith_def)
  with d f single show ?thesis by simp
qed

section \<open>The second marker is redundant\<close>

text \<open>
  C10. A name that contains \<^verbatim>\<open>.pth\<close> contains \<^verbatim>\<open>.pt\<close>; so the filter of the source,
  with its two markers, keeps the same entries of every listing as the filter with
  \<^verbatim>\<open>.pt\<close> alone, and the two resolvers are equal.
\<close>

theorem ckpt_filter_pt_only:
  "(str_contains ''.pth'' x \<longrightarrow> str_contains ''.pt'' x)
   \<and> filter (\<lambda>x. str_contains ''.pt'' x \<or> str_contains ''.pth'' x) entries
       = filter (str_contains ''.pt'') entries
   \<and> resolve_ckpts fs ckpt = resolve_ckpts_pt_only fs ckpt"
proof -
  have flt: "filter (\<lambda>x. str_contains ''.pt'' x \<or> str_contains ''.pth'' x) es
             = filter (str_contains ''.pt'') es" for es
    by (rule filter_cong) (auto dest: pth_contains_pt)
  have "resolve_ckpts fs ckpt = resolve_ckpts_pt_only fs ckpt"
    by (simp add: resolve_ckpts_filter resolve_ckpts_pt_only_def comprehension_filter flt
          split: option.splits)
  with flt [of entries] show ?thesis
    using pth_contains_pt by blast
qed

theorem ckpt_filter_pt_only_witness:
  "str_contains ''.pth'' ''fold1.pth'' \<and> str_contains ''.pt'' ''fold1.pth''
   \<and> filter (\<lambda>x. str_contains ''.pt'' x \<or> str_contains ''.pth'' x)
        [''fold0.pt'', ''fold1.pth'', ''readme.txt'']
       = filter (str_contains ''.pt'') [''fold0.pt'', ''fold1.pth'', ''readme.txt'']
   \<and> resolve_ckpts demo_fs ''ckpts'' = resolve_ckpts_pt_only demo_fs ''ckpts''"
proof -
  have p: "str_contains ''.pth'' ''fold1.pth''" by simp
  note h = ckpt_filter_pt_only
    [of "''fold1.pth''" "[''fold0.pt'', ''fold1.pth'', ''readme.txt'']" demo_fs "''ckpts''"]
  from h p have "str_contains ''.pt'' ''fold1.pth''" by blast
  with h p show ?thesis by blast
qed

section \<open>The experiment name is checked first\<close>

text \<open>
  C8. With \<^verbatim>\<open>args.exp_name\<close> missing, \<^verbatim>\<open>bounding_box_prompt\<close> raises the
  \<^verbatim>\<open>AssertionError\<close> at once: no call to a collaborator has been made (no device is
  selected, no dataset constructed, no model loaded); the only effect is
  \<^verbatim>\<open>args.wandb = False\<close>, set on the line before.
\<close>

theorem bounding_box_prompt_missing_exp_name:
  "exp_name a = None \<Longrightarrow>
   bounding_box_prompt E a = (Inl AssertionError, ([], a\<lparr>wandb := Some False\<rparr>))"
  by (simp add: bounding_box_prompt_def Let_def)

theorem bounding_box_prompt_missing_exp_name_witness:
  "exp_name demo_args = None
   \<and> bounding_box_prompt demo_env demo_args
       = (Inl AssertionError, ([], demo_args\<lparr>wandb := Some False\<rparr>))"
proof -
  have n: "exp_name demo_args = None" by (simp add: demo_args_def)
  from bounding_box_prompt_missing_exp_name [OF n, of demo_env] n show ?thesis by simp
qed

text \<open>
  The same arguments with a name: the run goes through, and its calls start with the
  device selection.
\<close>

lemma bounding_box_prompt_named_run:
  "fst (bounding_box_prompt demo_env (demo_args\<lparr>exp_name := Some ''run''\<rparr>)) = Inr ()
   \<and> fst (snd (bounding_box_prompt demo_env (demo_args\<lparr>exp_name := Some ''run''\<rparr>)))
       = [Torch_device ''cpu'', Device_count,
          Construct_dataset ''GalileoDataset'' ''data'', Make_loader ''GalileoDataset'',
          Get_model (Some ''model.pt''), Model_to_device ''cpu'', Model_eval, Generate 0,
          Plot [Subplots 1 2 (12, 12),
                Imshow 0 \<lparr>shape = [1, 1, 3], pixels = [0, 0, 255]\<rparr> No_cmap_kw,
                Set_title 0 ''source image'', Axis_off 0,
                Imshow 1 \<lparr>shape = [1, 1, 3], pixels = [0, 0, 255]\<rparr> No_cmap_kw,
                Set_title 1 ''instance segmentation'', Axis_off 1,
                Show, Close]]"
proof -
  have plot: "plot_images_grid demo_libs [Array bgr_pixel, Array bgr_pixel] (1, 2)
                (Some [''source image'', ''instance segmentation'']) (12, 12) (Some ''gray'') None
              = (Inr (),
                 [Subplots 1 2 (12, 12),
                  Imshow 0 \<lparr>shape = [1, 1, 3], pixels = [0, 0, 255]\<rparr> No_cmap_kw,
                  Set_title 0 ''source image'', Axis_off 0,
                  Imshow 1 \<lparr>shape = [1, 1, 3], pixels = [0, 0, 255]\<rparr> No_cmap_kw,
                  Set_title 1 ''instance segmentation'', Axis_off 1,
                  Show, Close],
                 [Array bgr_pixel, Array bgr_pixel])"
  proof -
    have conv: "convert_images demo_libs [Array bgr_pixel, Array bgr_pixel]
                = [Array bgr_pixel, Array bgr_pixel]"
      by (simp add: convert_images_map convert_image_def)
    have cells: "[0..<2] = [0, Suc 0]" by (simp add: upt_rec)
    have n3: "ndim bgr_pixel \<noteq> 2"
      by (simp add: ndim_def bgr_pixel_def)
    have c: "cvtColor_BGR2RGB demo_libs bgr_pixel = \<lparr>shape = [1, 1, 3], pixels = [0, 0, 255]\<rparr>"
      by (simp add: demo_libs_def bgr_pixel_def)
    show ?thesis
      unfolding plot_images_grid_def Let_def conv
      using n3 c
      by (simp add: subplots_def axes_flat_def cells render_cell_def finish_def)
  qed
  have res: "resolve_ckpts demo_fs ''model.pt'' = [''model.pt'']"
    by (simp add: resolve_ckpts_def demo_fs_def)
  show ?thesis
    by (simp add: bounding_box_prompt_def Let_def demo_args_def demo_env_def res demo_dataset_def
          truthy_def plot)
qed

end
